theory Spec2Isabelle
  imports Main "HOL-Library.Sublist" "HOL-Library.AList"
begin

section \<open>Strings\<close>

text \<open>
  JavaScript strings are modelled as \<open>string\<close> (a list of characters). The source only
  uses three string operations: \<open>split\<close> with a one-character separator, \<open>indexOf\<close> and
  \<open>toLowerCase\<close>.

  Characters are bytes, and lower-casing acts on the ASCII letters only.

  \<open>s.split(sep)\<close> cuts \<open>s\<close> at every occurrence of the separator and keeps the empty
  pieces; the empty string splits into one empty piece.
\<close>

fun js_split :: "char \<Rightarrow> string \<Rightarrow> string list" where
  "js_split sep [] = [[]]"
| "js_split sep (x # xs) =
     (if x = sep then [] # js_split sep xs
      else (case js_split sep xs of
              [] \<Rightarrow> [[x]]
            | y # ys \<Rightarrow> (x # y) # ys))"

text \<open>
  \<open>s.indexOf(t)\<close>: the least position at which \<open>t\<close> occurs in \<open>s\<close>, and \<open>-1\<close> when it
  occurs nowhere. The comparison is by characters, so it is case-sensitive.
\<close>

fun indexOf :: "string \<Rightarrow> string \<Rightarrow> int" where
  "indexOf [] t = (if t = [] then 0 else - 1)"
| "indexOf (x # xs) t =
     (if prefix t (x # xs) then 0
      else (let r = indexOf xs t in if r = - 1 then - 1 else r + 1))"

definition toLowerCase_char :: "char \<Rightarrow> char" where
  "toLowerCase_char ch =
     (case map_of (zip ''ABCDEFGHIJKLMNOPQRSTUVWXYZ'' ''abcdefghijklmnopqrstuvwxyz'') ch of
        Some l \<Rightarrow> l
      | None \<Rightarrow> ch)"

definition toLowerCase :: "string \<Rightarrow> string" where
  "toLowerCase s = map toLowerCase_char s"

text \<open>\<open>Array.prototype.shift\<close>: the first element, \<open>undefined\<close> on an empty array.\<close>

definition shift :: "'a list \<Rightarrow> 'a option" where
  "shift xs = (case xs of [] \<Rightarrow> None | x # _ \<Rightarrow> Some x)"

section \<open>Path normalisation (routes.js, lines 33-53)\<close>

text \<open>
  \<^verbatim>\<open>function removeExtension(path) { return path.split('.').shift(); }\<close>
  \<^verbatim>\<open>function removeQueryString(path) { return path.split('?').shift(); }\<close>
  \<^verbatim>\<open>function normalizePath(path) { return removeExtension(removeQueryString(path)); }\<close>
  The result of \<open>split\<close> is never empty, so \<open>shift\<close> always finds an element
  (lemma \<open>js_split_shift\<close> below); the \<open>None\<close> branch is written out and unreachable.
\<close>

definition removeExtension :: "string \<Rightarrow> string" where
  "removeExtension p = (case shift (js_split CHR ''.'' p) of Some x \<Rightarrow> x | None \<Rightarrow> [])"

definition removeQueryString :: "string \<Rightarrow> string" where
  "removeQueryString p = (case shift (js_split CHR ''?'' p) of Some x \<Rightarrow> x | None \<Rightarrow> [])"

definition normalizePath :: "string \<Rightarrow> string" where
  "normalizePath p = removeExtension (removeQueryString p)"

text \<open>
  The resource key in the words of the specification, to be compared with \<open>normalizePath\<close>:
  the query string is removed, and then the trailing \<open>.extension\<close> only. If the last path
  segment (the text after the last \<open>/\<close>) contains a dot, everything from its final dot on
  is removed; no character before that final dot is touched.
\<close>

definition spec_removeTrailingExtension :: "string \<Rightarrow> string" where
  "spec_removeTrailingExtension q =
     (if CHR ''.'' \<in> set (takeWhile (\<lambda>c. c \<noteq> CHR ''/'') (rev q))
      then rev (tl (dropWhile (\<lambda>c. c \<noteq> CHR ''.'') (rev q)))
      else q)"

definition spec_resourceKey :: "string \<Rightarrow> string" where
  "spec_resourceKey p = spec_removeTrailingExtension (takeWhile (\<lambda>c. c \<noteq> CHR ''?'') p)"

section \<open>Data model\<close>

text \<open>
  JSON values. \<open>JUndefined\<close> is JavaScript's \<open>undefined\<close> in a property; \<open>JNum\<close> is a number
  with an integer value, \<open>JFraction\<close> any other number, given by its text. An object is the
  list of its properties in the order in which they are enumerated.
\<close>

datatype json =
    JUndefined
  | JNull
  | JBool bool
  | JNum int
  | JFraction string
  | JString string
  | JArray "json list"
  | JObject "(string \<times> json) list"

text \<open>
  A failure is the value a promise rejects with, or a thrown value. JavaScript lets it be
  any value: \<open>is_error\<close> says whether it is an instance of \<open>Error\<close>, and each of the
  properties \<open>name\<close>, \<open>message\<close> and \<open>stack\<close> may be absent (\<open>None\<close>), as on a rejection with a
  plain object or a string.
\<close>

record failure =
  is_error :: bool
  err_name :: "string option"
  err_message :: "string option"
  err_stack :: "string option"

text \<open>Log lines (\<open>log.info\<close>, \<open>log.warn\<close>, \<open>log.error\<close>): the text is kept, logged objects are not.\<close>

datatype log_entry = LogInfo string | LogWarn string | LogError string

text \<open>
  What the client receives. \<open>res.json(v)\<close> and \<open>res.send(object)\<close> send a JSON body,
  \<open>res.send(string)\<close> a text body, \<open>res.sendStatus(n)\<close> the standard text of the status.
\<close>

datatype body = JSONBody json | TextBody string | StatusBody

record response =
  status :: nat
  body :: body

text \<open>
  \<open>res.format({json, html, default})\<close> picks a branch from the request's \<open>Accept\<close> header.
  The response object is modelled by what that choice reads: the header of its request.
\<close>

datatype negotiated = AsJSON | AsHTML | AsDefault

record res =
  res_accept :: "string option"

text \<open>
  The outcome of a handler: what it logged, the response it completed (\<open>None\<close>: the request
  is left without a complete response), and the error that escaped it, if any (a synchronous
  throw, or a rejection nothing handles).
\<close>

record outcome =
  logged :: "log_entry list"
  sent :: "response option"
  thrown :: "failure option"

text \<open>The request, as far as the handlers read it.\<close>

record request =
  req_url :: string
  req_ext :: string
  req_accept :: "string option"
  req_query :: "(string \<times> json) list"
  req_body :: "(string \<times> json) list option"

text \<open>One staged operation of a batch write.\<close>

record batch_op =
  op_type :: string
  op_key :: string
  op_value :: json

text \<open>
  \<open>db.list\<close> answers with a promise (given by how it settles), a stream, or something else
  (given by its \<open>typeof\<close>). A stream is given by the bytes it emits and by how it finishes:
  it ends (\<open>None\<close>), or it emits \<open>error\<close> and never ends.
\<close>

datatype list_result =
    ListPromise "failure + json"
  | ListStream string "failure option"
  | ListOther string

text \<open>
  The collaborators are parameters of the model; none of them is in \<open>routes.js\<close>.
  A promise is given by how it settles: \<open>Inl\<close> a rejection, \<open>Inr\<close> the resolved value.
  \<^item> \<open>accepts\<close>: express's content negotiation, the branch \<open>res.format\<close> takes for an
    \<open>Accept\<close> header;
  \<^item> \<open>references_getComponentData\<close>, \<open>references_getComponentName\<close>: \<open>references.js\<close>; the
    name is given as the text it contributes to \<open>'/components/' + componentName\<close>, and
    computing it does not throw;
  \<^item> \<open>composer_renderComponent\<close>: \<open>composer.renderComponent\<close>, by the HTML it resolves to;
  \<^item> \<open>db_list\<close>, \<open>db_batch\<close>: \<open>db.js\<close>;
  \<^item> \<open>flake_next n\<close>: the base64 text of the \<open>n\<close>-th identifier the request's generator
    (\<open>flake-idgen\<close>) yields;
  \<^item> \<open>settle_time key\<close>: when the promise of the slot \<open>key\<close> settles during page creation;
    the slots' promises run concurrently, so any order is possible.
\<close>

record collab =
  accepts :: "string option \<Rightarrow> negotiated"
  references_getComponentData :: "string \<Rightarrow> failure + json"
  references_getComponentName :: "json \<Rightarrow> string"
  composer_renderComponent :: "string \<Rightarrow> (string \<times> json) list \<Rightarrow> failure + string"
  db_list :: "string \<Rightarrow> list_result"
  db_batch :: "batch_op list \<Rightarrow> failure + unit"
  flake_next :: "nat \<Rightarrow> string"
  settle_time :: "string \<Rightarrow> nat"

section \<open>Response envelope and error classifier (routes.js, lines 117-224)\<close>

text \<open>\<open>err.stack\<close> inside a string concatenation: an absent stack prints as \<open>undefined\<close>.\<close>

definition stack_text :: "failure \<Rightarrow> string" where
  "stack_text err = (case err_stack err of None \<Rightarrow> ''undefined'' | Some s \<Rightarrow> s)"

text \<open>The \<open>TypeError\<close> the engine throws on a call through \<open>undefined\<close> (V8's wording).\<close>

definition typeError :: "string \<Rightarrow> failure" where
  "typeError m =
     \<lparr>is_error = True, err_name = Some ''TypeError'', err_message = Some m,
      err_stack = Some (''TypeError: '' @ m)\<rparr>"

text \<open>
  \<^verbatim>\<open>function notImplemented(req, res) {
    log.warn('Not Implemented', 501, req.url, req.params);
    res.sendStatus(501); }\<close>
\<close>

definition notImplemented :: "request \<Rightarrow> outcome" where
  "notImplemented req =
     \<lparr>logged = [LogWarn ''Not Implemented''],
      sent = Some \<lparr>status = 501, body = StatusBody\<rparr>,
      thrown = None\<rparr>"

text \<open>
  \<^verbatim>\<open>function notFound(err, res) {
    if (err instanceof Error) { log.info('Not found: ' + err.stack); }
    else if (err) { res = err; }
    res.status(404).format({ json: ..., html: ..., 'default': ... }); }\<close>
  A failure that is no \<open>Error\<close> takes the place of \<open>res\<close>; it has no \<open>status\<close> method, so the
  call throws. With \<open>res\<close> undefined the call throws as well.
\<close>

definition notFound :: "collab \<Rightarrow> failure \<Rightarrow> res option \<Rightarrow> outcome" where
  "notFound c err res =
     (if is_error err then
        (case res of
           None \<Rightarrow>
             \<lparr>logged = [LogInfo (''Not found: '' @ stack_text err)], sent = None,
              thrown = Some (typeError ''Cannot read property 'status' of undefined'')\<rparr>
         | Some r \<Rightarrow>
             \<lparr>logged = [LogInfo (''Not found: '' @ stack_text err)],
              sent = Some (case accepts c (res_accept r) of
                   AsJSON \<Rightarrow> \<lparr>status = 404, body = JSONBody (JObject
                       [(''message'', JString ''Not Found''), (''code'', JNum 404)])\<rparr>
                 | AsHTML \<Rightarrow> \<lparr>status = 404, body = TextBody ''404 Not Found''\<rparr>
                 | AsDefault \<Rightarrow> \<lparr>status = 404, body = StatusBody\<rparr>),
              thrown = None\<rparr>)
      else
        \<lparr>logged = [], sent = None,
         thrown = Some (typeError ''res.status is not a function'')\<rparr>)"

text \<open>
  \<^verbatim>\<open>function serverError(err, res) {
    log.error(err.stack);
    res.status(500).format({
      json: function () { res.send({ message: err.message, code: 500 }); },
      html: function () { res.send('500 Server Error'); },
      'default': function () { res.sendStatus(500); } }); }\<close>
\<close>

definition serverError :: "collab \<Rightarrow> failure \<Rightarrow> res option \<Rightarrow> outcome" where
  "serverError c err res =
     (case res of
        None \<Rightarrow>
          \<lparr>logged = [LogError (stack_text err)], sent = None,
           thrown = Some (typeError ''Cannot read property 'status' of undefined'')\<rparr>
      | Some r \<Rightarrow>
          \<lparr>logged = [LogError (stack_text err)],
           sent = Some (case accepts c (res_accept r) of
                AsJSON \<Rightarrow> \<lparr>status = 500, body = JSONBody (JObject
                    [(''message'', (case err_message err of
                                      None \<Rightarrow> JUndefined
                                    | Some m \<Rightarrow> JString m)),
                     (''code'', JNum 500)])\<rparr>
              | AsHTML \<Rightarrow> \<lparr>status = 500, body = TextBody ''500 Server Error''\<rparr>
              | AsDefault \<Rightarrow> \<lparr>status = 500, body = StatusBody\<rparr>),
           thrown = None\<rparr>)"

text \<open>
  \<^verbatim>\<open>function handleError(res) {
    return function (err) {
      if ((err.name === 'NotFoundError') ||
        (err.message.indexOf('ENOENT') !== -1) ||
        (err.message.indexOf('not found') !== -1)) { notFound(err, res); }
      else { serverError(err, res); } }; }\<close>
  The disjunction is evaluated left to right. When the name does not match, \<open>err.message\<close>
  is read; on a failure without a message, \<open>err.message.indexOf\<close> throws a \<open>TypeError\<close> and
  neither \<open>notFound\<close> nor \<open>serverError\<close> is called.
\<close>

definition handleError :: "collab \<Rightarrow> res option \<Rightarrow> failure \<Rightarrow> outcome" where
  "handleError c res err =
     (if err_name err = Some ''NotFoundError'' then notFound c err res
      else (case err_message err of
              None \<Rightarrow>
                \<lparr>logged = [], sent = None,
                 thrown = Some (typeError ''Cannot read property 'indexOf' of undefined'')\<rparr>
            | Some m \<Rightarrow>
                if indexOf m ''ENOENT'' \<noteq> - 1 then notFound c err res
                else if indexOf m ''not found'' \<noteq> - 1 then notFound c err res
                else serverError c err res))"

text \<open>
  \<^verbatim>\<open>function expectJSON(fn, res) {
    bluebird.try(fn).then(function (result) { res.json(result); }).catch(handleError(res)); }\<close>
  \<open>fn\<close> is given by how \<open>bluebird.try(fn)\<close> settles. With \<open>res\<close> undefined, \<open>res.json\<close>
  throws inside the \<open>then\<close> callback, and the \<open>catch\<close> hands that \<open>TypeError\<close> to
  \<open>handleError(res)\<close>. An error thrown by the \<open>catch\<close> callback is handled by nothing.
  \<open>expectHTML\<close> is the same with \<open>res.send(result)\<close>.
\<close>

definition expectJSON :: "collab \<Rightarrow> failure + json \<Rightarrow> res option \<Rightarrow> outcome" where
  "expectJSON c fn res =
     (case fn of
        Inr result \<Rightarrow>
          (case res of
             Some r \<Rightarrow>
               \<lparr>logged = [], sent = Some \<lparr>status = 200, body = JSONBody result\<rparr>,
                thrown = None\<rparr>
           | None \<Rightarrow>
               handleError c res (typeError ''Cannot read property 'json' of undefined''))
      | Inl err \<Rightarrow> handleError c res err)"

definition expectHTML :: "collab \<Rightarrow> failure + string \<Rightarrow> res option \<Rightarrow> outcome" where
  "expectHTML c fn res =
     (case fn of
        Inr result \<Rightarrow>
          (case res of
             Some r \<Rightarrow>
               \<lparr>logged = [], sent = Some \<lparr>status = 200, body = TextBody result\<rparr>,
                thrown = None\<rparr>
           | None \<Rightarrow>
               handleError c res (typeError ''Cannot read property 'send' of undefined''))
      | Inl err \<Rightarrow> handleError c res err)"

section \<open>Resource handlers (routes.js, lines 241-352)\<close>

text \<open>
  A handler \<open>h(req, res)\<close> receives the response object of its own request. The model
  writes it as a function of the request; the \<open>res\<close> it hands on is \<open>res_of req\<close>.
\<close>

definition res_of :: "request \<Rightarrow> res option" where
  "res_of req = Some \<lparr>res_accept = req_accept req\<rparr>"

text \<open>The allowable query string variables, and lodash's \<open>_.pick(object, keys)\<close>.\<close>

definition queryStringOptions :: "string list" where
  "queryStringOptions = [''ignore-data'']"

definition pick :: "(string \<times> json) list \<Rightarrow> string list \<Rightarrow> (string \<times> json) list" where
  "pick obj keys =
     concat (map (\<lambda>k. case map_of obj k of None \<Rightarrow> [] | Some v \<Rightarrow> [(k, v)]) keys)"

text \<open>
  \<^verbatim>\<open>function getRouteFromComponent(req, res) {
    expectJSON(function () {
      return references.getComponentData(normalizePath(req.url)); }, res); }\<close>
\<close>

definition getRouteFromComponent :: "collab \<Rightarrow> request \<Rightarrow> outcome" where
  "getRouteFromComponent c req =
     expectJSON c (references_getComponentData c (normalizePath (req_url req))) (res_of req)"

text \<open>
  \<^verbatim>\<open>function renderComponent(req, res) {
    expectHTML(function () {
      return composer.renderComponent(removeExtension(removeQueryString(req.url)), res,
        _.pick(req.query, queryStringOptions)); }, res); }\<close>
\<close>

definition renderComponent :: "collab \<Rightarrow> request \<Rightarrow> outcome" where
  "renderComponent c req =
     expectHTML c
       (composer_renderComponent c (removeExtension (removeQueryString (req_url req)))
          (pick (req_query req) queryStringOptions))
       (res_of req)"

text \<open>
  \<^verbatim>\<open>function listAllWithPrefix(req, res) {
    var path = normalizePath(req.url),
      list = db.list({prefix: path, values: false});
    if (isPromise(list)) { expectJSON(_.constant(list)); }
    else if (isPipeableStream(list)) {
      list.on('error', function (error) {
        log.error('listAllWithPrefix::error', path, error); }).pipe(res); }
    else { throw new Error('listAllWithPrefix cannot handle type ' + (typeof list)); } }\<close>
  In the promise branch \<open>expectJSON\<close> is called with one argument: its \<open>res\<close> is undefined.
  In the stream branch the handler only pipes: the bytes go out under status 200, and the
  response is ended when the stream ends. A stream that emits \<open>error\<close> is logged; \<open>pipe\<close> does
  not end the response then, so the response is never completed.
\<close>

definition listAllWithPrefix :: "collab \<Rightarrow> request \<Rightarrow> outcome" where
  "listAllWithPrefix c req =
     (case db_list c (normalizePath (req_url req)) of
        ListPromise list \<Rightarrow> expectJSON c list None
      | ListStream bytes error \<Rightarrow>
          (case error of
             None \<Rightarrow>
               \<lparr>logged = [], sent = Some \<lparr>status = 200, body = TextBody bytes\<rparr>,
                thrown = None\<rparr>
           | Some e \<Rightarrow>
               \<lparr>logged = [LogError ''listAllWithPrefix::error''], sent = None,
                thrown = None\<rparr>)
      | ListOther ty \<Rightarrow>
          \<lparr>logged = [], sent = None,
           thrown = Some
             \<lparr>is_error = True, err_name = Some ''Error'',
              err_message = Some (''listAllWithPrefix cannot handle type '' @ ty),
              err_stack = Some (''Error: listAllWithPrefix cannot handle type '' @ ty)\<rparr>\<rparr>)"

text \<open>
  \<^verbatim>\<open>function routeByExtension(req, res) {
    log.info('routeByExtension', req.params);
    switch (req.params.ext.toLowerCase()) {
      case 'html': req.headers.accept = 'text/html'; renderComponent(req, res); break;
      case 'yaml': req.headers.accept = 'text/yaml'; notImplemented(req, res); break;
      case 'json':
      default: req.headers.accept = 'application/json'; getRouteFromComponent(req, res); break; } }\<close>
\<close>

definition addLog :: "log_entry \<Rightarrow> outcome \<Rightarrow> outcome" where
  "addLog e out = out\<lparr>logged := e # logged out\<rparr>"

text \<open>
  \<open>routeByExtension\<close> assigns to \<open>req.headers.accept\<close>; the model returns the request as the
  assignment leaves it, together with the outcome of the handler it calls.
\<close>

definition routeByExtension :: "collab \<Rightarrow> request \<Rightarrow> request \<times> outcome" where
  "routeByExtension c req =
     (let ext = toLowerCase (req_ext req) in
      if ext = ''html'' then
        (let req' = req\<lparr>req_accept := Some ''text/html''\<rparr>
         in (req', addLog (LogInfo ''routeByExtension'') (renderComponent c req')))
      else if ext = ''yaml'' then
        (let req' = req\<lparr>req_accept := Some ''text/yaml''\<rparr>
         in (req', addLog (LogInfo ''routeByExtension'') (notImplemented req')))
      else
        (let req' = req\<lparr>req_accept := Some ''application/json''\<rparr>
         in (req', addLog (LogInfo ''routeByExtension'') (getRouteFromComponent c req'))))"

section \<open>Page creation (routes.js, lines 359-410)\<close>

text \<open>
  \<^verbatim>\<open>function createPage(req, res) {
    function getUniqueId() { return flake.next().toString('base64'); }
    var ops = [], Flake = require('flake-idgen'), flake = new Flake(),
      body = req.body,
      layoutReference = body && body.layout,
      pageData = body && _.omit(body, 'layout'),
      pageReference = '/pages/' + getUniqueId();
    pageData = _.reduce(pageData, function (obj, value, key) {
      var componentName = references.getComponentName(value);
      obj[key] = references.getComponentData('/components/' + componentName)
        .then(function (componentData) {
          var componentInstance = '/components/' + componentName + '/instances/' + getUniqueId();
          ops.push({ type: 'put', key: componentInstance, value: componentData });
          return componentInstance; });
      return obj; }, { layout: layoutReference });
    bluebird.props(pageData)
      .then(function (value) {
        ops.push({ type: 'put', key: pageReference, value: value });
        return db.batch(ops).then(function () {
          value._ref = pageReference;
          return value; });
      }).then(function (result) { res.send(result); })
      .catch(function (err) { log.error('Failed to create new page' + err.stack); }); }\<close>

  The request body is a parsed JSON object: a list of properties with distinct keys, or
  absent (\<open>None\<close>). (A JSON array as body behaves as the object of its indices.) The state
  the callbacks share is the identifier generator (the number of identifiers drawn so far;
  the page's is the first) and the array \<open>ops\<close>.
\<close>

text \<open>
  Lodash. \<open>_.omit(body, 'layout')\<close> copies every property but \<open>layout\<close>. \<open>_.reduce\<close> visits the
  own properties of an object, unless the object is array-like: when its \<open>length\<close> is a
  number that \<open>isLength\<close> of lodash 3 and 4 accepts (an integer from 0 to \<open>MAX_SAFE_INTEGER\<close>), it is
  read as an array, and the callback receives the indices below \<open>length\<close> as keys and
  \<open>collection[index]\<close> as values (\<open>undefined\<close> where the object has no such property).
\<close>

definition property :: "(string \<times> json) list \<Rightarrow> string \<Rightarrow> json" where
  "property obj key = (case map_of obj key of None \<Rightarrow> JUndefined | Some v \<Rightarrow> v)"

definition omit :: "(string \<times> json) list \<Rightarrow> string \<Rightarrow> (string \<times> json) list" where
  "omit obj name = filter (\<lambda>(key, value). key \<noteq> name) obj"

definition MAX_SAFE_INTEGER :: int where
  "MAX_SAFE_INTEGER = 9007199254740991"


definition isLength :: "json \<Rightarrow> bool" where
  "isLength v = (case v of JNum n \<Rightarrow> - 1 < n \<and> n \<le> MAX_SAFE_INTEGER | _ \<Rightarrow> False)"

definition isArrayLike :: "(string \<times> json) list \<Rightarrow> bool" where
  "isArrayLike collection = isLength (property collection ''length'')"

text \<open>The property name of an index: its decimal digits.\<close>

fun decimal :: "nat \<Rightarrow> string" where
  "decimal n =
     (if n < 10 then [''0123456789'' ! n]
      else decimal (n div 10) @ [''0123456789'' ! (n mod 10)])"

text \<open>The keys and values the callback of \<open>_.reduce\<close> receives, in order.\<close>

definition reduceEntries :: "(string \<times> json) list \<Rightarrow> (string \<times> json) list" where
  "reduceEntries collection =
     (if isArrayLike collection then
        (case property collection ''length'' of
           JNum n \<Rightarrow> map (\<lambda>index. (decimal index, property collection (decimal index)))
                      [0..<nat n]
         | _ \<Rightarrow> [])
      else collection)"

text \<open>
  \<open>settleSlot\<close> is what happens when the promise of one slot settles: on a rejection
  nothing is staged; on a resolution the \<open>then\<close> callback draws an identifier, stages
  the put of the new instance and resolves to the instance key. The third component
  records how each slot's promise ended, in the order in which they settled.
\<close>

definition settleSlot ::
  "collab \<Rightarrow> string \<times> json \<Rightarrow>
   nat \<times> batch_op list \<times> (string \<times> (failure + string)) list \<Rightarrow>
   nat \<times> batch_op list \<times> (string \<times> (failure + string)) list" where
  "settleSlot c slot st =
     (case slot of (key, value) \<Rightarrow>
      case st of (n, ops, settled) \<Rightarrow>
        let componentName = references_getComponentName c value in
        case references_getComponentData c (''/components/'' @ componentName) of
          Inl err \<Rightarrow> (n, ops, settled @ [(key, Inl err)])
        | Inr componentData \<Rightarrow>
            let componentInstance =
                  ''/components/'' @ componentName @ ''/instances/'' @ flake_next c n
            in (Suc n,
                ops @ [\<lparr>op_type = ''put'', op_key = componentInstance,
                         op_value = componentData\<rparr>],
                settled @ [(key, Inr componentInstance)]))"

text \<open>\<open>bluebird.props\<close> rejects with the first rejection among its promises.\<close>

fun firstRejection :: "(string \<times> (failure + string)) list \<Rightarrow> failure option" where
  "firstRejection [] = None"
| "firstRejection ((key, Inl err) # rest) = Some err"
| "firstRejection ((key, Inr v) # rest) = firstRejection rest"

text \<open>The value \<open>bluebird.props\<close> puts under a slot's key once every promise has resolved.\<close>

definition resolvedValue :: "(string \<times> (failure + string)) list \<Rightarrow> string \<Rightarrow> json" where
  "resolvedValue settled key =
     (case map_of settled key of
        Some (Inr componentInstance) \<Rightarrow> JString componentInstance
      | _ \<Rightarrow> JUndefined)"

text \<open>
  Besides the outcome, page creation is observed by the array \<open>ops\<close> as the last callback
  leaves it (\<open>staged\<close>) and by the argument of \<open>db.batch\<close> as it is at the call, if it was
  called (\<open>submitted\<close>). The page operation holds the object \<open>value\<close> itself, so the
  assignment \<open>value._ref = pageReference\<close> after a successful commit shows in \<open>ops\<close> as well.

  The slots' promises settle in the order of their \<open>settle_time\<close> (slots with equal times in
  the order in which \<open>_.reduce\<close> visited them). A callback of a slot that resolves runs
  whether or not another slot has rejected. The \<open>catch\<close> at the end of the chain receives a
  rejected slot and a failed batch write alike, and only logs.
\<close>

record page_outcome = outcome +
  staged :: "batch_op list"
  submitted :: "batch_op list option"

definition createPage :: "collab \<Rightarrow> request \<Rightarrow> page_outcome" where
  "createPage c req =
     (let body = req_body req;
          layoutReference =
            (case body of
               None \<Rightarrow> JUndefined
             | Some obj \<Rightarrow> property obj ''layout'');
          pageData =
            (case body of
               None \<Rightarrow> []
             | Some obj \<Rightarrow> reduceEntries (omit obj ''layout''));
          pageReference = ''/pages/'' @ flake_next c 0
      in case fold (settleSlot c) (sort_key (\<lambda>(key, value). settle_time c key) pageData)
                (1, [], []) of
           (n, ops, settled) \<Rightarrow>
             (case firstRejection settled of
                Some err \<Rightarrow>
                  \<lparr>logged = [LogError (''Failed to create new page'' @ stack_text err)],
                   sent = None, thrown = None, staged = ops, submitted = None\<rparr>
              | None \<Rightarrow>
                  let value = (''layout'', layoutReference) #
                                map (\<lambda>(key, v). (key, resolvedValue settled key)) pageData;
                      ops' = ops @ [\<lparr>op_type = ''put'', op_key = pageReference,
                                       op_value = JObject value\<rparr>]
                  in (case db_batch c ops' of
                        Inl err \<Rightarrow>
                          \<lparr>logged = [LogError (''Failed to create new page'' @ stack_text err)],
                           sent = None, thrown = None, staged = ops', submitted = Some ops'\<rparr>
                      | Inr ack \<Rightarrow>
                          let result = AList.update ''_ref'' (JString pageReference) value
                          in \<lparr>logged = [],
                              sent = Some \<lparr>status = 200, body = JSONBody (JObject result)\<rparr>,
                              thrown = None,
                              staged = ops @ [\<lparr>op_type = ''put'', op_key = pageReference,
                                                op_value = JObject result\<rparr>],
                              submitted = Some ops'\<rparr>)))"

section \<open>Host routing tables (routes.js, lines 443-475)\<close>

text \<open>
  \<^verbatim>\<open>var sitesOnThisHost = _.filter(sitesMap, {host: host}).sort(function (a, b) {
      // sort by the depth of the path, so we can have domain.com/ and domain.com/foo/
      // as two separate sites
      return a.path.split('/').length - b.path.split('/').length; })\<close>
  The sites of the table are mounted in this order.

  \<open>Array.prototype.sort\<close> belongs to the engine. On an array of at most 10 elements node's
  engine (V8) sorts by insertion: each element in turn is moved down past the elements before
  it that compare greater (\<open>comparefn(tmp, element) > 0\<close>). That sort is stable, and the result
  of a stable sort is fixed by the comparison function, so an engine with the stable sort of
  ECMAScript 2019 returns the same array. On a longer array V8 before version 7.0 (node
  before 11) runs a quicksort, which is not stable; for longer arrays the engine's sort is a
  parameter of the model.

  \<open>InsertionSort_insert\<close> is the inner loop: \<open>below\<close> is the sorted part of the array, read
  from the element just before \<open>element\<close> down to the first.
\<close>

fun InsertionSort_insert :: "('a \<Rightarrow> 'a \<Rightarrow> int) \<Rightarrow> 'a \<Rightarrow> 'a list \<Rightarrow> 'a list" where
  "InsertionSort_insert comparefn element [] = [element]"
| "InsertionSort_insert comparefn element (tmp # below) =
     (if comparefn tmp element > 0 then tmp # InsertionSort_insert comparefn element below
      else element # tmp # below)"

definition InsertionSort :: "('a \<Rightarrow> 'a \<Rightarrow> int) \<Rightarrow> 'a list \<Rightarrow> 'a list" where
  "InsertionSort comparefn a =
     rev (foldl (\<lambda>below element. InsertionSort_insert comparefn element below) [] a)"

definition array_sort ::
  "(('a \<Rightarrow> 'a \<Rightarrow> int) \<Rightarrow> 'a list \<Rightarrow> 'a list) \<Rightarrow> ('a \<Rightarrow> 'a \<Rightarrow> int) \<Rightarrow> 'a list \<Rightarrow> 'a list" where
  "array_sort engine comparefn a =
     (if length a \<le> 10 then InsertionSort comparefn a else engine comparefn a)"

record site =
  slug :: string
  host :: string
  path :: string

text \<open>The comparison function of the source: the difference of the numbers of segments.\<close>

definition byDepth :: "site \<Rightarrow> site \<Rightarrow> int" where
  "byDepth a b =
     int (length (js_split CHR ''/'' (path a))) - int (length (js_split CHR ''/'' (path b)))"

definition sitesOnThisHost ::
  "((site \<Rightarrow> site \<Rightarrow> int) \<Rightarrow> site list \<Rightarrow> site list) \<Rightarrow> site list \<Rightarrow> string \<Rightarrow> site list" where
  "sitesOnThisHost engine sitesMap h =
     array_sort engine byDepth (filter (\<lambda>s. host s = h) sitesMap)"

section \<open>Sample collaborators and requests\<close>

text \<open>Concrete values at which the theorems below are instantiated.\<close>

definition sample_failure :: failure where
  "sample_failure =
     \<lparr>is_error = True, err_name = Some ''Error'', err_message = Some ''connection lost'',
      err_stack = Some ''Error: connection lost''\<rparr>"

definition sample_collab :: collab where
  "sample_collab =
     \<lparr>accepts = (\<lambda>a. if a = Some ''text/html'' then AsHTML
                     else if a = Some ''text/yaml'' then AsDefault else AsJSON),
      references_getComponentData =
        (\<lambda>key. if key = ''/components/article''
               then Inr (JObject [(''title'', JString ''untitled'')])
               else if key = ''/components/story''
               then Inr (JObject [(''text'', JString ''once'')])
               else Inl sample_failure),
      references_getComponentName = (\<lambda>v. case v of JString s \<Rightarrow> s | _ \<Rightarrow> ''undefined''),
      composer_renderComponent = (\<lambda>key options. Inr ''<article></article>''),
      db_list = (\<lambda>prefix. ListPromise (Inr (JArray []))),
      db_batch = (\<lambda>ops. Inr ()),
      flake_next = (\<lambda>n. replicate (Suc n) CHR ''A''),
      settle_time = (\<lambda>key. 0)\<rparr>"

definition sample_request :: request where
  "sample_request =
     \<lparr>req_url = ''/pages'', req_ext = ''json'', req_accept = None,
      req_query = [],
      req_body = Some [(''layout'', JString ''/components/layout''),
                       (''main'', JString ''article''), (''side'', JString ''story'')]\<rparr>"

definition sample_component_request :: request where
  "sample_component_request =
     \<lparr>req_url = ''/components/article.html?ignore-data=true&edit=true'', req_ext = ''html'',
      req_accept = None,
      req_query = [(''ignore-data'', JString ''true''), (''edit'', JString ''true'')],
      req_body = None\<rparr>"



section \<open>Facts about splitting\<close>

lemma js_split_shift: "shift (js_split sep s) = Some (takeWhile (\<lambda>c. c \<noteq> sep) s)"
  by (induction s) (auto simp: shift_def split: list.splits)


lemma removeExtension_takeWhile: "removeExtension p = takeWhile (\<lambda>c. c \<noteq> CHR ''.'') p"
  by (simp add: removeExtension_def js_split_shift)

lemma removeQueryString_takeWhile: "removeQueryString p = takeWhile (\<lambda>c. c \<noteq> CHR ''?'') p"
  by (simp add: removeQueryString_def js_split_shift)

lemma takeWhile_twice:
  "takeWhile P (takeWhile Q xs) = takeWhile (\<lambda>x. P x \<and> Q x) xs"
  by (induction xs) auto

lemma normalizePath_takeWhile:
  "normalizePath p = takeWhile (\<lambda>c. c \<noteq> CHR ''.'' \<and> c \<noteq> CHR ''?'') p"
  by (simp add: normalizePath_def removeExtension_takeWhile removeQueryString_takeWhile
      takeWhile_twice)

lemma takeWhile_fixed: "takeWhile P (takeWhile P xs) = takeWhile P xs"
  by (simp add: takeWhile_twice)

section \<open>Claims about path normalisation\<close>

text \<open>
  Claim C6. For every path string \<open>p\<close>, normalising is idempotent:
  \<open>normalizePath (normalizePath p) = normalizePath p\<close>; and the path
  \<open>/components/foo.html?x=1\<close> normalises to \<open>/components/foo\<close>.
\<close>

theorem normalizePath_idempotent:
  "normalizePath (normalizePath p) = normalizePath p \<and>
   normalizePath ''/components/foo.html?x=1'' = ''/components/foo''"
proof
  show "normalizePath (normalizePath p) = normalizePath p"
    by (simp only: normalizePath_takeWhile takeWhile_fixed)
  show "normalizePath ''/components/foo.html?x=1'' = ''/components/foo''"
    by (simp add: normalizePath_takeWhile)
qed

lemma spec_removeTrailingExtension_one_dot:
  assumes "length (filter (\<lambda>c. c = CHR ''.'') q) \<le> 1"
    and "CHR ''/'' \<notin> set (dropWhile (\<lambda>c. c \<noteq> CHR ''.'') q)"
  shows "spec_removeTrailingExtension q = takeWhile (\<lambda>c. c \<noteq> CHR ''.'') q"
proof (cases "CHR ''.'' \<in> set q")
  case False
  have tw: "takeWhile (\<lambda>c. c \<noteq> CHR ''.'') q = q"
    using False by (auto simp: takeWhile_eq_all_conv)
  have nd: "CHR ''.'' \<in> set (takeWhile (\<lambda>c. c \<noteq> CHR ''/'') (rev q)) = False"
    using False by (auto dest: set_takeWhileD)
  show ?thesis
    by (simp only: spec_removeTrailingExtension_def nd tw if_False)
next
  case True
  then obtain a b where q: "q = a @ CHR ''.'' # b" and a: "CHR ''.'' \<notin> set a"
    by (meson split_list_first)
  from assms(1) q a have b: "CHR ''.'' \<notin> set b"
    by (auto simp: filter_empty_conv)
  have a': "\<forall>x\<in>set a. x \<noteq> CHR ''.''" using a by auto
  have dw: "dropWhile (\<lambda>c. c \<noteq> CHR ''.'') q = CHR ''.'' # b"
    using a' by (simp add: q)
  with assms(2) have sl: "\<forall>x\<in>set (rev b). x \<noteq> CHR ''/''" by auto
  have tw: "takeWhile (\<lambda>c. c \<noteq> CHR ''.'') q = a"
    using a' by (simp add: q)
  have r: "rev q = rev b @ CHR ''.'' # rev a" using q by simp
  have "takeWhile (\<lambda>c. c \<noteq> CHR ''/'') (rev b @ CHR ''.'' # rev a)
        = rev b @ takeWhile (\<lambda>c. c \<noteq> CHR ''/'') (CHR ''.'' # rev a)"
    by (rule takeWhile_append2) (use sl in auto)
  then have "CHR ''.'' \<in> set (takeWhile (\<lambda>c. c \<noteq> CHR ''/'') (rev q))"
    by (simp add: r)
  moreover have "dropWhile (\<lambda>c. c \<noteq> CHR ''.'') (rev b @ CHR ''.'' # rev a)
        = dropWhile (\<lambda>c. c \<noteq> CHR ''.'') (CHR ''.'' # rev a)"
    by (rule dropWhile_append2) (use b in auto)
  then have "dropWhile (\<lambda>c. c \<noteq> CHR ''.'') (rev q) = CHR ''.'' # rev a"
    by (simp add: r)
  ultimately show ?thesis by (simp add: spec_removeTrailingExtension_def tw)
qed

text \<open>
  Where the path before the query string has at most one dot and no \<open>/\<close> after it, the cut at
  the first dot removes exactly the trailing extension.
\<close>

lemma normalizePath_one_dot:
  "length (filter (\<lambda>c. c = CHR ''.'') (removeQueryString p)) \<le> 1 \<Longrightarrow>
   CHR ''/'' \<notin> set (dropWhile (\<lambda>c. c \<noteq> CHR ''.'') (removeQueryString p)) \<Longrightarrow>
   normalizePath p = spec_resourceKey p"
  using spec_removeTrailingExtension_one_dot [of "removeQueryString p"]
  by (simp add: normalizePath_takeWhile spec_resourceKey_def removeQueryString_takeWhile
      takeWhile_twice)

text \<open>
  Claim C7 says that the derived resource key is the path with exactly the trailing
  \<open>.extension\<close> and the query string removed, no character before the final dot of the last
  path segment being removed; the doc comment of \<open>removeExtension\<close> says the same (\<open>Remove
  extension from route / path\<close>). The code cuts the path at its first dot. For
  \<open>/components/a.b.html\<close> the route \<open>/components/:name.:ext\<close> matches the component \<open>a.b\<close> with
  extension \<open>html\<close>, and the handler reads the key \<open>/components/a\<close>, another component; for
  \<open>/pages/a.b.json\<close> the key is \<open>/pages/a\<close>. Removing the trailing extension alone gives
  \<open>/components/a.b\<close> and \<open>/pages/a.b\<close>.
\<close>

theorem normalizePath_cuts_at_first_dot:
  "normalizePath ''/components/a.b.html'' = ''/components/a'' \<and>
   spec_resourceKey ''/components/a.b.html'' = ''/components/a.b'' \<and>
   normalizePath ''/pages/a.b.json'' = ''/pages/a'' \<and>
   spec_resourceKey ''/pages/a.b.json'' = ''/pages/a.b''"
  by (simp add: normalizePath_takeWhile spec_resourceKey_def spec_removeTrailingExtension_def)

section \<open>Facts about the error classifier\<close>

lemma indexOf_ge: "- 1 \<le> indexOf s t"
  by (induction s) (auto simp: Let_def)

lemma indexOf_sublist: "indexOf s t \<noteq> - 1 \<longleftrightarrow> sublist t s"
proof (induction s)
  case Nil
  then show ?case by simp
next
  case (Cons x xs)
  have "- 1 \<le> indexOf xs t" by (rule indexOf_ge)
  then have "indexOf xs t + 1 \<noteq> - 1" by arith
  with Cons show ?case
    by (auto simp: Let_def sublist_Cons_right)
qed

lemma notFound_neq_serverError: "notFound c err res \<noteq> serverError c err' res'"
proof
  assume "notFound c err res = serverError c err' res'"
  then have "logged (notFound c err res) = logged (serverError c err' res')" by simp
  then show False
    by (simp add: notFound_def serverError_def split: if_splits option.splits)
qed

lemma handleError_cases:
  assumes "err_message err = Some m"
  shows "handleError c res err =
     (if err_name err = Some ''NotFoundError'' \<or> sublist ''ENOENT'' m \<or> sublist ''not found'' m
      then notFound c err res else serverError c err res)"
  using assms by (simp add: handleError_def indexOf_sublist del: indexOf.simps)

section \<open>Claims about the error classifier\<close>

text \<open>
  Claim C3, amended. For every failure that carries a message, \<open>handleError\<close> takes the
  Not-Found path (it calls \<open>notFound\<close>) if and only if the failure's name is exactly
  \<open>NotFoundError\<close>, or its message contains \<open>ENOENT\<close>, or its message contains \<open>not found\<close>
  (a case-sensitive substring match); for every other failure that carries a message it
  takes the Server-Error path (it calls \<open>serverError\<close>). What happens to a failure without a
  message is left out here; it is the subject of claim C8.
\<close>

theorem handleError_classification:
  assumes "err_message err = Some m"
  shows "(handleError c res err = notFound c err res \<longleftrightarrow>
            err_name err = Some ''NotFoundError'' \<or> sublist ''ENOENT'' m \<or> sublist ''not found'' m)
       \<and> (handleError c res err = serverError c err res \<longleftrightarrow>
            \<not> (err_name err = Some ''NotFoundError'' \<or> sublist ''ENOENT'' m \<or> sublist ''not found'' m))"
  using notFound_neq_serverError [of c err res err res]
  by (auto simp add: handleError_cases [OF assms] simp del: indexOf.simps)

theorem handleError_classification_witness:
  "err_message (sample_failure\<lparr>err_message := Some ''Key not found in database''\<rparr>)
     = Some ''Key not found in database'' \<and>
   sublist ''not found'' ''Key not found in database'' \<and>
   handleError sample_collab (Some \<lparr>res_accept = Some ''application/json''\<rparr>)
       (sample_failure\<lparr>err_message := Some ''Key not found in database''\<rparr>)
     = notFound sample_collab (sample_failure\<lparr>err_message := Some ''Key not found in database''\<rparr>)
         (Some \<lparr>res_accept = Some ''application/json''\<rparr>) \<and>
   handleError sample_collab (Some \<lparr>res_accept = Some ''application/json''\<rparr>) sample_failure
     = serverError sample_collab sample_failure (Some \<lparr>res_accept = Some ''application/json''\<rparr>)"
proof -
  have s: "sublist ''not found'' ''Key not found in database''"
    unfolding indexOf_sublist [symmetric] by simp
  have n1: "\<not> sublist ''not found'' ''connection lost''"
    unfolding indexOf_sublist [symmetric] by simp
  have n2: "\<not> sublist ''ENOENT'' ''connection lost''"
    unfolding indexOf_sublist [symmetric] by simp
  have m: "err_message sample_failure = Some ''connection lost''"
    by (simp add: sample_failure_def)
  have nm: "err_name sample_failure \<noteq> Some ''NotFoundError''"
    by (simp add: sample_failure_def)
  show ?thesis
    using handleError_classification [of "sample_failure\<lparr>err_message := Some ''Key not found in database''\<rparr>"
        "''Key not found in database''" sample_collab "Some \<lparr>res_accept = Some ''application/json''\<rparr>"]
      handleError_classification [OF m, of sample_collab "Some \<lparr>res_accept = Some ''application/json''\<rparr>"]
      s n1 n2 nm
    by simp
qed

text \<open>
  Claim C3, as stated, makes a failure whose kind is \<open>NotFound\<close> a Not-Found condition. The
  code compares \<open>err.name\<close> with \<open>NotFoundError\<close>: a failure named \<open>NotFound\<close> whose message
  matches neither substring is rendered as a Server Error, status 500.
\<close>

theorem handleError_name_NotFound_counterexample:
  "handleError sample_collab (Some \<lparr>res_accept = Some ''application/json''\<rparr>)
     \<lparr>is_error = True, err_name = Some ''NotFound'', err_message = Some ''connection lost'',
      err_stack = Some ''NotFound: connection lost''\<rparr>
   = \<lparr>logged = [LogError ''NotFound: connection lost''],
      sent = Some \<lparr>status = 500, body = JSONBody (JObject
               [(''message'', JString ''connection lost''), (''code'', JNum 500)])\<rparr>,
      thrown = None\<rparr>"
  by (simp add: handleError_def serverError_def sample_collab_def stack_text_def)

lemma handleError_no_message:
  "err_name err \<noteq> Some ''NotFoundError'' \<Longrightarrow> err_message err = None \<Longrightarrow>
   handleError c res err =
     \<lparr>logged = [], sent = None,
      thrown = Some (typeError ''Cannot read property 'indexOf' of undefined'')\<rparr>"
  by (simp add: handleError_def)

text \<open>
  Claim C8 says that classification never throws, also on a failure whose message is absent.
  On a failure with no name and no message (a promise rejected with a plain object, say),
  \<open>handleError\<close> throws a \<open>TypeError\<close> at \<open>err.message.indexOf\<close>: nothing is logged, nothing is
  sent, and neither rendering path is taken.
\<close>

theorem handleError_without_message_throws:
  "handleError c (Some r)
     \<lparr>is_error = False, err_name = None, err_message = None, err_stack = None\<rparr>
   = \<lparr>logged = [], sent = None,
      thrown = Some (typeError ''Cannot read property 'indexOf' of undefined'')\<rparr>"
  by (simp add: handleError_def)

section \<open>Claims about the list endpoints\<close>

lemma handleError_undefined_res: "sent (handleError c None err) = None"
  by (simp add: handleError_def notFound_def serverError_def split: option.splits)

lemma listAllWithPrefix_promise_sends_nothing:
  "db_list c (normalizePath (req_url req)) = ListPromise list \<Longrightarrow>
   sent (listAllWithPrefix c req) = None"
  by (simp add: listAllWithPrefix_def expectJSON_def handleError_undefined_res
      split: sum.splits)

text \<open>
  Claim C9 says that a list endpoint whose storage answers with a promise sends the resolved
  collection as a JSON success response, and renders a rejection as an error response.
  \<open>listAllWithPrefix\<close> calls \<open>expectJSON\<close> without \<open>res\<close>: when the promise resolves,
  \<open>res.json\<close> throws; that error, like a rejection of the promise, reaches
  \<open>handleError(undefined)\<close>, which logs it and throws at \<open>res.status\<close>. In both cases
  nothing is sent.
\<close>

theorem listAllWithPrefix_promise_no_response:
  "db_list sample_collab (normalizePath (req_url sample_request)) = ListPromise (Inr (JArray [])) \<and>
   listAllWithPrefix sample_collab sample_request
   = \<lparr>logged = [LogError ''TypeError: Cannot read property 'json' of undefined''],
      sent = None,
      thrown = Some (typeError ''Cannot read property 'status' of undefined'')\<rparr> \<and>
   listAllWithPrefix (sample_collab\<lparr>db_list := \<lambda>prefix. ListPromise (Inl sample_failure)\<rparr>)
       sample_request
   = \<lparr>logged = [LogError ''Error: connection lost''],
      sent = None,
      thrown = Some (typeError ''Cannot read property 'status' of undefined'')\<rparr>"
  by (simp add: listAllWithPrefix_def expectJSON_def handleError_def serverError_def
      sample_collab_def sample_request_def sample_failure_def typeError_def stack_text_def)

section \<open>Claims about extension dispatch\<close>

lemma pick_queryStringOptions:
  "pick q queryStringOptions =
     (case map_of q ''ignore-data'' of None \<Rightarrow> [] | Some v \<Rightarrow> [(''ignore-data'', v)])"
  by (simp add: pick_def queryStringOptions_def)

lemma toLowerCase_html: "toLowerCase ''html'' = ''html''"
  by (simp add: toLowerCase_def toLowerCase_char_def)

lemma toLowerCase_yaml: "toLowerCase ''yaml'' = ''yaml''"
  by (simp add: toLowerCase_def toLowerCase_char_def)

lemma toLowerCase_json: "toLowerCase ''json'' = ''json''"
  by (simp add: toLowerCase_def toLowerCase_char_def)

text \<open>
  Claim C5. On a request matched with an extension, \<open>routeByExtension\<close> sets the \<open>Accept\<close>
  header and picks the handler as follows. Extension \<open>html\<close>: \<open>Accept\<close> becomes \<open>text/html\<close>
  and the component is rendered, the renderer receiving the resource key of the URL and, of
  the query, only the option \<open>ignore-data\<close>; the HTML it resolves to is sent with status 200.
  Extension \<open>yaml\<close>: \<open>Accept\<close> becomes \<open>text/yaml\<close> and the response is 501 Not Implemented.
  Extension \<open>json\<close>: \<open>Accept\<close> becomes \<open>application/json\<close> and the component data stored
  under the resource key is sent as JSON with status 200.
\<close>

theorem routeByExtension_dispatch:
  "routeByExtension c (req\<lparr>req_ext := ''html''\<rparr>) =
     (req\<lparr>req_ext := ''html'', req_accept := Some ''text/html''\<rparr>,
      addLog (LogInfo ''routeByExtension'')
        (expectHTML c
           (composer_renderComponent c (normalizePath (req_url req))
              (case map_of (req_query req) ''ignore-data'' of
                 None \<Rightarrow> []
               | Some v \<Rightarrow> [(''ignore-data'', v)]))
           (Some \<lparr>res_accept = Some ''text/html''\<rparr>))) \<and>
   routeByExtension c (req\<lparr>req_ext := ''yaml''\<rparr>) =
     (req\<lparr>req_ext := ''yaml'', req_accept := Some ''text/yaml''\<rparr>,
      \<lparr>logged = [LogInfo ''routeByExtension'', LogWarn ''Not Implemented''],
       sent = Some \<lparr>status = 501, body = StatusBody\<rparr>, thrown = None\<rparr>) \<and>
   routeByExtension c (req\<lparr>req_ext := ''json''\<rparr>) =
     (req\<lparr>req_ext := ''json'', req_accept := Some ''application/json''\<rparr>,
      addLog (LogInfo ''routeByExtension'')
        (expectJSON c (references_getComponentData c (normalizePath (req_url req)))
           (Some \<lparr>res_accept = Some ''application/json''\<rparr>))) \<and>
   (composer_renderComponent c (normalizePath (req_url req))
        (case map_of (req_query req) ''ignore-data'' of
           None \<Rightarrow> []
         | Some v \<Rightarrow> [(''ignore-data'', v)]) = Inr html
    \<longrightarrow> sent (snd (routeByExtension c (req\<lparr>req_ext := ''html''\<rparr>)))
          = Some \<lparr>status = 200, body = TextBody html\<rparr>) \<and>
   (references_getComponentData c (normalizePath (req_url req)) = Inr componentData
    \<longrightarrow> sent (snd (routeByExtension c (req\<lparr>req_ext := ''json''\<rparr>)))
          = Some \<lparr>status = 200, body = JSONBody componentData\<rparr>)"
  by (simp add: Let_def routeByExtension_def toLowerCase_html toLowerCase_yaml toLowerCase_json
      renderComponent_def getRouteFromComponent_def notImplemented_def res_of_def addLog_def
      pick_queryStringOptions normalizePath_def)
     (simp add: expectHTML_def expectJSON_def)

theorem routeByExtension_dispatch_witness:
  "composer_renderComponent sample_collab (normalizePath (req_url sample_component_request))
       (case map_of (req_query sample_component_request) ''ignore-data'' of
          None \<Rightarrow> []
        | Some v \<Rightarrow> [(''ignore-data'', v)]) = Inr ''<article></article>'' \<and>
   sent (snd (routeByExtension sample_collab (sample_component_request\<lparr>req_ext := ''html''\<rparr>)))
     = Some \<lparr>status = 200, body = TextBody ''<article></article>''\<rparr> \<and>
   references_getComponentData sample_collab (normalizePath (req_url sample_component_request))
     = Inr (JObject [(''title'', JString ''untitled'')]) \<and>
   sent (snd (routeByExtension sample_collab (sample_component_request\<lparr>req_ext := ''json''\<rparr>)))
     = Some \<lparr>status = 200, body = JSONBody (JObject [(''title'', JString ''untitled'')])\<rparr>"
proof -
  have n: "normalizePath (req_url sample_component_request) = ''/components/article''"
    by (simp add: sample_component_request_def normalizePath_takeWhile)
  have r: "composer_renderComponent sample_collab (normalizePath (req_url sample_component_request))
       (case map_of (req_query sample_component_request) ''ignore-data'' of
          None \<Rightarrow> []
        | Some v \<Rightarrow> [(''ignore-data'', v)]) = Inr ''<article></article>''"
    by (simp add: sample_collab_def)
  have d: "references_getComponentData sample_collab
       (normalizePath (req_url sample_component_request))
     = Inr (JObject [(''title'', JString ''untitled'')])"
    by (simp add: n sample_collab_def)
  from r d routeByExtension_dispatch [of sample_collab sample_component_request
        "''<article></article>''" "JObject [(''title'', JString ''untitled'')]"]
  show ?thesis by blast
qed

text \<open>
  Claim C10. Extension matching is case-insensitive: two extensions with the same lower-case
  form are handled alike (same outcome, same \<open>Accept\<close> header). Every extension whose
  lower-case form is neither \<open>html\<close> nor \<open>yaml\<close> is handled as \<open>json\<close> is: \<open>Accept\<close> becomes
  \<open>application/json\<close> and the raw component data is returned.
\<close>

theorem routeByExtension_case_insensitive:
  "(toLowerCase e = toLowerCase e' \<longrightarrow>
      snd (routeByExtension c (req\<lparr>req_ext := e\<rparr>)) = snd (routeByExtension c (req\<lparr>req_ext := e'\<rparr>)) \<and>
      req_accept (fst (routeByExtension c (req\<lparr>req_ext := e\<rparr>)))
        = req_accept (fst (routeByExtension c (req\<lparr>req_ext := e'\<rparr>)))) \<and>
   (toLowerCase e \<noteq> ''html'' \<and> toLowerCase e \<noteq> ''yaml'' \<longrightarrow>
      routeByExtension c (req\<lparr>req_ext := e\<rparr>) =
        (req\<lparr>req_ext := e, req_accept := Some ''application/json''\<rparr>,
         addLog (LogInfo ''routeByExtension'')
           (expectJSON c (references_getComponentData c (normalizePath (req_url req)))
              (Some \<lparr>res_accept = Some ''application/json''\<rparr>))) \<and>
      snd (routeByExtension c (req\<lparr>req_ext := e\<rparr>))
        = snd (routeByExtension c (req\<lparr>req_ext := ''json''\<rparr>)))"
  by (simp add: Let_def routeByExtension_def toLowerCase_json
      renderComponent_def getRouteFromComponent_def notImplemented_def res_of_def)

theorem routeByExtension_case_insensitive_witness:
  "toLowerCase ''HTML'' = toLowerCase ''html'' \<and>
   snd (routeByExtension sample_collab (sample_component_request\<lparr>req_ext := ''HTML''\<rparr>))
     = snd (routeByExtension sample_collab (sample_component_request\<lparr>req_ext := ''html''\<rparr>)) \<and>
   toLowerCase ''TXT'' \<noteq> ''html'' \<and> toLowerCase ''TXT'' \<noteq> ''yaml'' \<and>
   snd (routeByExtension sample_collab (sample_component_request\<lparr>req_ext := ''TXT''\<rparr>))
     = snd (routeByExtension sample_collab (sample_component_request\<lparr>req_ext := ''json''\<rparr>))"
proof -
  have l: "toLowerCase ''HTML'' = toLowerCase ''html''"
    by (simp add: toLowerCase_def toLowerCase_char_def)
  have t: "toLowerCase ''TXT'' \<noteq> ''html'' \<and> toLowerCase ''TXT'' \<noteq> ''yaml''"
    by (simp add: toLowerCase_def toLowerCase_char_def)
  from l t
    routeByExtension_case_insensitive [of "''HTML''" "''html''" sample_collab
        sample_component_request]
    routeByExtension_case_insensitive [of "''TXT''" "''json''" sample_collab
        sample_component_request]
  show ?thesis by blast
qed

section \<open>Claims about the host routing tables\<close>




















text \<open>
  On a longer table an engine may order by the comparison function and still move sites with
  equal keys: one that returns equal sites in reverse order, for instance, turns eleven sites
  of equal depth round.
\<close>

lemma unstable_engine_reorders_ties:
  "sitesOnThisHost (\<lambda>comparefn a. rev (InsertionSort (\<lambda>x y. comparefn y x) a))
     (map (\<lambda>s. \<lparr>slug = s, host = ''example.com'', path = ''/''\<rparr>)
        [''s0'', ''s1'', ''s2'', ''s3'', ''s4'', ''s5'', ''s6'', ''s7'', ''s8'', ''s9'', ''s10''])
     ''example.com''
   = map (\<lambda>s. \<lparr>slug = s, host = ''example.com'', path = ''/''\<rparr>)
       [''s10'', ''s9'', ''s8'', ''s7'', ''s6'', ''s5'', ''s4'', ''s3'', ''s2'', ''s1'', ''s0'']"
  by (simp add: sitesOnThisHost_def array_sort_def InsertionSort_def byDepth_def)

section \<open>Claims about page creation\<close>


lemma createPage_sent_cases:
  "sent (createPage c req) = None \<or>
   (\<exists>obj. sent (createPage c req) = Some \<lparr>status = 200, body = JSONBody (JObject obj)\<rparr>)"
  by (simp add: createPage_def Let_def split: prod.splits option.splits sum.splits)

lemma createPage_commit_failure:
  "submitted (createPage c req) = Some ops \<Longrightarrow> db_batch c ops = Inl err \<Longrightarrow>
   sent (createPage c req) = None"
  by (auto simp: createPage_def Let_def split: prod.splits option.splits sum.splits)

text \<open>A slot whose component data cannot be read stops the transaction before the batch.\<close>

lemma firstRejection_append:
  "firstRejection (xs @ ys) =
     (case firstRejection xs of Some err \<Rightarrow> Some err | None \<Rightarrow> firstRejection ys)"
  by (induction xs rule: firstRejection.induct) simp_all

lemma fold_settleSlot_keeps_rejection:
  "firstRejection settled \<noteq> None \<Longrightarrow>
   firstRejection (snd (snd (fold (settleSlot c) xs (n, ops, settled)))) \<noteq> None"
proof (induction xs arbitrary: n ops settled)
  case Nil
  then show ?case by simp
next
  case (Cons x xs)
  obtain k v where x: "x = (k, v)" by (cases x)
  obtain n' ops' settled' where s: "settleSlot c x (n, ops, settled) = (n', ops', settled')"
    by (cases "settleSlot c x (n, ops, settled)")
  with Cons.prems x have "firstRejection settled' \<noteq> None"
    by (auto simp: settleSlot_def Let_def firstRejection_append split: sum.splits)
  then show ?case
    using Cons.IH [of settled' n' ops'] by (simp add: s)
qed

lemma fold_settleSlot_rejection:
  assumes "(k, v) \<in> set xs"
    and "references_getComponentData c (''/components/'' @ references_getComponentName c v)
           = Inl err"
  shows "firstRejection (snd (snd (fold (settleSlot c) xs (n, ops, settled)))) \<noteq> None"
  using assms(1)
proof (induction xs arbitrary: n ops settled)
  case Nil
  then show ?case by simp
next
  case (Cons x xs)
  obtain n' ops' settled' where s: "settleSlot c x (n, ops, settled) = (n', ops', settled')"
    by (cases "settleSlot c x (n, ops, settled)")
  show ?case
  proof (cases "x = (k, v)")
    case True
    with assms(2) s have "firstRejection settled' \<noteq> None"
      by (auto simp: settleSlot_def Let_def firstRejection_append split: option.splits)
    then show ?thesis
      using fold_settleSlot_keeps_rejection [of settled' c xs n' ops'] by (simp add: s)
  next
    case False
    with Cons.prems have "(k, v) \<in> set xs" by simp
    then show ?thesis
      using Cons.IH [of n' ops' settled'] by (simp add: s)
  qed
qed





lemma createPage_rejected_slot:
  assumes "req_body req = Some obj"
    and "(k, v) \<in> set (reduceEntries (omit obj ''layout''))"
    and "references_getComponentData c (''/components/'' @ references_getComponentName c v)
           = Inl err"
  shows "submitted (createPage c req) = None \<and> sent (createPage c req) = None"
proof -
  let ?order = "sort_key (\<lambda>(key, value). settle_time c key)
                  (reduceEntries (omit obj ''layout''))"
  from assms(2) have "(k, v) \<in> set ?order" by simp
  from fold_settleSlot_rejection [OF this assms(3), of 1 "[]" "[]"]
  obtain n ops settled e where "fold (settleSlot c) ?order (1, [], []) = (n, ops, settled)"
    and "firstRejection settled = Some e"
    by (cases "fold (settleSlot c) ?order (1, [], [])") auto
  then show ?thesis
    by (simp add: createPage_def assms(1) Let_def)
qed

text \<open>
  A body that lodash reads as an array: with \<open>length\<close> 0 no slot is visited, whatever other
  properties the body has, and the page put is the only operation.
\<close>

lemma createPage_array_like_body:
  "submitted (createPage sample_collab
     (sample_request\<lparr>req_body := Some [(''length'', JNum 0), (''main'', JString ''article'')]\<rparr>))
   = Some [\<lparr>op_type = ''put'', op_key = ''/pages/A'',
             op_value = JObject [(''layout'', JUndefined)]\<rparr>]"
  by (simp add: createPage_def sample_collab_def sample_request_def Let_def
      reduceEntries_def isArrayLike_def isLength_def property_def omit_def MAX_SAFE_INTEGER_def)

text \<open>
  Claim C1 says that when a slot's resolution or the commit fails, no batch write is submitted
  and the caller receives a Server Error response. With the slot \<open>side\<close> naming a component
  whose data cannot be read, no batch is submitted, one instance put stays staged, the failure
  is logged and nothing is sent. When the batch write itself fails, the failure is logged and
  nothing is sent either. In general (the lemmas above) page creation sends a 200 or nothing:
  a rejected slot leaves the batch unsubmitted and the request unanswered, and so does a
  failed batch write.
\<close>

theorem createPage_failure_sends_nothing:
  "createPage sample_collab
     (sample_request\<lparr>req_body := Some [(''main'', JString ''article''),
                                        (''side'', JString ''missing'')]\<rparr>)
   = \<lparr>logged = [LogError ''Failed to create new pageError: connection lost''],
      sent = None, thrown = None,
      staged = [\<lparr>op_type = ''put'', op_key = ''/components/article/instances/AA'',
                 op_value = JObject [(''title'', JString ''untitled'')]\<rparr>],
      submitted = None\<rparr> \<and>
   logged (createPage (sample_collab\<lparr>db_batch := \<lambda>ops. Inl sample_failure\<rparr>) sample_request)
     = [LogError ''Failed to create new pageError: connection lost''] \<and>
   sent (createPage (sample_collab\<lparr>db_batch := \<lambda>ops. Inl sample_failure\<rparr>) sample_request)
     = None"
  by (simp add: createPage_def settleSlot_def sample_collab_def sample_request_def
      sample_failure_def stack_text_def Let_def
      reduceEntries_def isArrayLike_def isLength_def property_def omit_def)





lemma sample_createPage:
  "submitted (createPage sample_collab sample_request) =
     Some [\<lparr>op_type = ''put'', op_key = ''/components/article/instances/AA'',
             op_value = JObject [(''title'', JString ''untitled'')]\<rparr>,
           \<lparr>op_type = ''put'', op_key = ''/components/story/instances/AAA'',
             op_value = JObject [(''text'', JString ''once'')]\<rparr>,
           \<lparr>op_type = ''put'', op_key = ''/pages/A'',
             op_value = JObject [(''layout'', JString ''/components/layout''),
                                 (''main'', JString ''/components/article/instances/AA''),
                                 (''side'', JString ''/components/story/instances/AAA'')]\<rparr>] \<and>
   sent (createPage sample_collab sample_request) =
     Some \<lparr>status = 200, body = JSONBody (JObject
             [(''layout'', JString ''/components/layout''),
              (''main'', JString ''/components/article/instances/AA''),
              (''side'', JString ''/components/story/instances/AAA''),
              (''_ref'', JString ''/pages/A'')])\<rparr>"
  by (simp add: createPage_def settleSlot_def sample_collab_def sample_request_def
      resolvedValue_def Let_def
      reduceEntries_def isArrayLike_def isLength_def property_def omit_def)


end
